theory Spec2Isabelle
  imports Main
begin

text \<open>
  A model of bunnydo (\<open>src/index.js\<close>), a client over an amqplib channel with three
  messaging patterns: work queues, request and reply (RPC), and fanout publish and
  subscribe. The model covers the message codec, the queue and binding tables, the table
  of RPC callbacks and the operations on them. The JavaScript runtime and the channel
  are parameters. Promise chains are run to their end, one operation after the other: a
  callback is a continuation, and an operation returns the client it leaves behind. The
  chain of \<open>onPubsub\<close> is also given callback by callback, for two calls that overlap.
\<close>

section \<open>JavaScript values\<close>

text \<open>
  The library is dynamically typed: a message handed to \<open>toAMQPMessage\<close> can be any
  JavaScript value. Values are modelled by the datatype below. Text is a \<open>string\<close>
  holding the UTF-8 bytes of the JavaScript string, so that \<open>new Buffer(s)\<close> and
  \<open>buf.toString()\<close> keep the byte sequence; a \<open>Buf\<close> holds the bytes of a Buffer. Numbers
  are the integral ones. An object is the list of its own enumerable properties in key
  order, each key once. Of what an object inherits, the model has the accessor \<open>__proto__\<close>
  (in \<open>assign\<close> below) and, for the tables of the client, the names of
  \<open>Object.prototype\<close>; an own property \<open>toString\<close> of a message is not modelled.
\<close>

datatype jsval =
    Undefined
  | Null
  | Bool bool
  | Num int
  | Str string
  | Buf string
  | Arr "jsval list"
  | Obj "(string \<times> jsval) list"
  | Fun string

type_synonym props = "(string \<times> jsval) list"

datatype js_error = TypeError | SyntaxError | ChannelError string

text \<open>The \<open>typeof\<close> operator.\<close>

fun typeof :: "jsval \<Rightarrow> string" where
  "typeof Undefined = ''undefined''"
| "typeof Null = ''object''"
| "typeof (Bool b) = ''boolean''"
| "typeof (Num n) = ''number''"
| "typeof (Str s) = ''string''"
| "typeof (Buf b) = ''object''"
| "typeof (Arr xs) = ''object''"
| "typeof (Obj ps) = ''object''"
| "typeof (Fun src) = ''function''"

text \<open>Truthiness, as \<open>if (v)\<close>, \<open>!v\<close> and \<open>a && b\<close> test it.\<close>

fun truthy :: "jsval \<Rightarrow> bool" where
  "truthy Undefined = False"
| "truthy Null = False"
| "truthy (Bool b) = b"
| "truthy (Num n) = (n \<noteq> 0)"
| "truthy (Str s) = (s \<noteq> [])"
| "truthy (Buf b) = True"
| "truthy (Arr xs) = True"
| "truthy (Obj ps) = True"
| "truthy (Fun src) = True"

fun isBuffer :: "jsval \<Rightarrow> bool" where
  "isBuffer (Buf b) = True"
| "isBuffer v = False"

subsection \<open>Decimal text of numbers\<close>

definition digit_char :: "nat \<Rightarrow> char" where
  "digit_char d = ''0123456789'' ! d"

fun string_of_nat :: "nat \<Rightarrow> string" where
  "string_of_nat n =
     (if n < 10 then [digit_char n]
      else string_of_nat (n div 10) @ [digit_char (n mod 10)])"

declare string_of_nat.simps [simp del]

definition string_of_int :: "int \<Rightarrow> string" where
  "string_of_int i = (if i < 0 then CHR ''-'' # string_of_nat (nat (- i)) else string_of_nat (nat i))"

subsection \<open>Properties\<close>

text \<open>\<open>o[k] = v\<close> on a property list: an existing key keeps its place, a new one goes last.\<close>

fun set_prop :: "props \<Rightarrow> string \<Rightarrow> jsval \<Rightarrow> props" where
  "set_prop [] k v = [(k, v)]"
| "set_prop ((k', v') # ps) k v =
     (if k' = k then (k, v) # ps else (k', v') # set_prop ps k v)"

text \<open>
  The assignment \<open>o[k] = v\<close> to a plain object, as to the properties it leaves: under the
  name \<open>__proto__\<close> it calls the setter inherited from \<open>Object.prototype\<close>, which makes
  no own property.
\<close>

definition assign :: "props \<Rightarrow> string \<Rightarrow> jsval \<Rightarrow> props" where
  "assign obj k v = (if k = ''__proto__'' then obj else set_prop obj k v)"

text \<open>\<open>ps[k]\<close>: a missing property reads as \<open>undefined\<close>.\<close>

definition get_prop :: "props \<Rightarrow> string \<Rightarrow> jsval" where
  "get_prop ps k = (case map_of ps k of None \<Rightarrow> Undefined | Some v \<Rightarrow> v)"

text \<open>
  The own enumerable properties of a value: those of an object, the indices of an array,
  and the indices of a Buffer (a \<open>Uint8Array\<close>), whose elements read as the byte values.
\<close>

definition indexed :: "jsval list \<Rightarrow> props" where
  "indexed xs = zip (map string_of_nat [0..<length xs]) xs"

fun own_props :: "jsval \<Rightarrow> props" where
  "own_props (Obj ps) = ps"
| "own_props (Arr xs) = indexed xs"
| "own_props (Buf b) = indexed (map (\<lambda>c. Num (int (of_char c))) b)"
| "own_props v = []"

text \<open>\<open>Object.keys(v)\<close> raises a TypeError on \<open>null\<close> and \<open>undefined\<close>.\<close>

definition object_keys :: "jsval \<Rightarrow> js_error + string list" where
  "object_keys v =
     (if v = Null \<or> v = Undefined then Inl TypeError else Inr (map fst (own_props v)))"

text \<open>\<open>v[k]\<close> for a value that is not \<open>null\<close> or \<open>undefined\<close>.\<close>

definition get_member :: "jsval \<Rightarrow> string \<Rightarrow> jsval" where
  "get_member v k = get_prop (own_props v) k"

subsection \<open>Conversion to text\<close>

fun join :: "string \<Rightarrow> string list \<Rightarrow> string" where
  "join sep [] = []"
| "join sep [x] = x"
| "join sep (x # y # ys) = x @ sep @ join sep (y # ys)"

text \<open>
  The text of the bytes of a Buffer, \<open>buf.toString()\<close>: the bytes are decoded as UTF-8, and
  what is not UTF-8 is replaced by U+FFFD, one for each maximal part of a broken sequence.
  The text is kept as its UTF-8 bytes again, so well-formed sequences stay as they are
  and U+FFFD is the bytes EF BF BD. \<open>utf8_lead\<close> gives, for a lead byte, the number of
  bytes that must follow and the range of the next one; \<open>utf8_scan\<close> carries the bytes of
  the sequence read so far, the number still needed and the range of the next byte.
\<close>

definition replacement :: string where
  "replacement = [char_of (0xEF :: nat), char_of (0xBF :: nat), char_of (0xBD :: nat)]"

definition utf8_lead :: "nat \<Rightarrow> (nat \<times> nat \<times> nat) option" where
  "utf8_lead b =
     (if 0xC2 \<le> b \<and> b \<le> 0xDF then Some (1, 0x80, 0xBF)
      else if b = 0xE0 then Some (2, 0xA0, 0xBF)
      else if 0xE1 \<le> b \<and> b \<le> 0xEC then Some (2, 0x80, 0xBF)
      else if b = 0xED then Some (2, 0x80, 0x9F)
      else if b = 0xEE then Some (2, 0x80, 0xBF)
      else if b = 0xEF then Some (2, 0x80, 0xBF)
      else if b = 0xF0 then Some (3, 0x90, 0xBF)
      else if 0xF1 \<le> b \<and> b \<le> 0xF3 then Some (3, 0x80, 0xBF)
      else if b = 0xF4 then Some (3, 0x80, 0x8F)
      else None)"

fun utf8_scan :: "string \<Rightarrow> nat \<Rightarrow> nat \<Rightarrow> nat \<Rightarrow> string \<Rightarrow> string" where
  "utf8_scan pending needed lower upper [] = (if needed = 0 then [] else replacement)"
| "utf8_scan pending needed lower upper (c # cs) =
     (if 0 < needed \<and> lower \<le> of_char c \<and> of_char c \<le> upper then
        (if needed = 1 then pending @ [c] @ utf8_scan [] 0 0x80 0xBF cs
         else utf8_scan (pending @ [c]) (needed - 1) 0x80 0xBF cs)
      else
        (if 0 < needed then replacement else []) @
        (if (of_char c :: nat) < 0x80 then c # utf8_scan [] 0 0x80 0xBF cs
         else (case utf8_lead (of_char c) of
                 Some (n, lo, hi) \<Rightarrow> utf8_scan [c] n lo hi cs
               | None \<Rightarrow> replacement @ utf8_scan [] 0 0x80 0xBF cs)))"

definition utf8_text :: "string \<Rightarrow> string" where
  "utf8_text b = utf8_scan [] 0 0x80 0xBF b"

text \<open>
  The text of a value that has a \<open>toString\<close> method: \<open>Object.prototype.toString\<close> for a
  plain object, \<open>Array.prototype.toString\<close> (elements joined by commas, \<open>null\<close> and
  \<open>undefined\<close> as empty text) for an array, the decoded bytes for a Buffer.
\<close>

fun to_text :: "jsval \<Rightarrow> string" where
  "to_text Undefined = []"
| "to_text Null = []"
| "to_text (Bool b) = (if b then ''true'' else ''false'')"
| "to_text (Num n) = string_of_int n"
| "to_text (Str s) = s"
| "to_text (Buf b) = utf8_text b"
| "to_text (Arr xs) = join '','' (map to_text xs)"
| "to_text (Obj ps) = ''[object Object]''"
| "to_text (Fun src) = src"

text \<open>\<open>v.toString()\<close>: a TypeError when \<open>v\<close> is \<open>null\<close> or \<open>undefined\<close>.\<close>

definition toString :: "jsval \<Rightarrow> js_error + jsval" where
  "toString v = (if v = Null \<or> v = Undefined then Inl TypeError else Inr (Str (to_text v)))"

text \<open>\<open>new Buffer(s)\<close> for a string \<open>s\<close>.\<close>

fun new_Buffer :: "jsval \<Rightarrow> jsval" where
  "new_Buffer (Str s) = Buf s"
| "new_Buffer v = v"

section \<open>Messages and the channel\<close>

text \<open>
  A message delivered by amqplib is an object with the keys \<open>fields\<close>, \<open>properties\<close> and
  \<open>content\<close>. The library reads the routing key and the exchange of the fields, and the
  correlation id and the reply address of the properties; a property that is not set
  reads as \<open>undefined\<close> (here \<open>None\<close>).
\<close>

record delivery_fields =
  deliveryTag :: nat
  exchange :: string
  routingKey :: string

record message_properties =
  correlationId :: "string option"
  replyTo :: "string option"

record message =
  msg_fields :: delivery_fields
  properties :: message_properties
  content :: "string option"

fun opt_str :: "string option \<Rightarrow> jsval" where
  "opt_str None = Undefined"
| "opt_str (Some s) = Str s"

text \<open>The message as the JavaScript object the codec receives.\<close>

definition js_of_message :: "message \<Rightarrow> jsval" where
  "js_of_message m =
     Obj ([(''fields'', Obj [(''deliveryTag'', Num (int (deliveryTag (msg_fields m)))),
                            (''exchange'', Str (exchange (msg_fields m))),
                            (''routingKey'', Str (routingKey (msg_fields m)))]),
           (''properties'', Obj [(''correlationId'', opt_str (correlationId (properties m))),
                                (''replyTo'', opt_str (replyTo (properties m)))])]
          @ (case content m of None \<Rightarrow> [] | Some b \<Rightarrow> [(''content'', Buf b)]))"

text \<open>
  A callback given by the application is opaque: the model records that it was called and
  with which error and value. \<open>Noop\<close> is the function the library puts in the place of a
  missing callback.
\<close>

datatype callback = Noop | UserFn nat

text \<open>The functions the library hands to \<open>ch.consume\<close>.\<close>

datatype consumer =
    RpcReplyHandler
  | RpcRequestHandler callback
  | PubsubHandler callback

text \<open>The calls the library makes on the amqplib channel \<open>this.ch\<close>.\<close>

datatype chan_op =
    AssertQueue string "props option"
  | AssertExchange string string props
  | BindQueue string string string
  | Consume string consumer "props option"
  | SendToQueue string jsval "props option"
  | Ack message

text \<open>A call and its outcome: \<open>None\<close> when it succeeds, the error when it throws or rejects.\<close>

type_synonym chan_call = "chan_op \<times> js_error option"

section \<open>The environment\<close>

text \<open>
  What the library takes from its runtime and from amqplib is a parameter of the model:
  \<^item> \<open>pid\<close>: \<open>process.pid\<close>;
  \<^item> \<open>JSON_stringify\<close>: \<open>JSON.stringify\<close>, which returns text or \<open>undefined\<close> (here
    \<open>None\<close>) or throws;
  \<^item> \<open>JSON_parse\<close>: \<open>JSON.parse\<close>, which returns a value or throws;
  \<^item> \<open>uuid\<close>: the result of the n-th call of \<open>uuid()\<close>;
  \<^item> \<open>broker\<close>: the outcome of a channel call, given the calls made before it;
  \<^item> \<open>server_name\<close>: the name the broker gives to a queue declared with the empty name.
\<close>

record env =
  pid :: nat
  JSON_stringify :: "jsval \<Rightarrow> js_error + string option"
  JSON_parse :: "string \<Rightarrow> js_error + jsval"
  uuid :: "nat \<Rightarrow> string"
  broker :: "chan_call list \<Rightarrow> chan_op \<Rightarrow> js_error option"
  server_name :: "chan_call list \<Rightarrow> string"

section \<open>The message codec\<close>

text \<open>
  \<open>copy\<close> (lines 7-20): a value whose \<open>typeof\<close> is \<open>'object'\<close> is copied key by key into a
  fresh plain object; any other value is returned as it is.
\<close>

definition copy :: "jsval \<Rightarrow> js_error + jsval" where
  "copy src =
     (if typeof src = ''object'' then
        (case object_keys src of
           Inl e \<Rightarrow> Inl e
         | Inr ks \<Rightarrow> Inr (Obj (foldl (\<lambda>acc i. assign acc i (get_member src i)) [] ks)))
      else Inr src)"

text \<open>\<open>merge\<close> (lines 22-29): every key of \<open>b\<close> is assigned into \<open>a\<close>.\<close>

definition merge :: "props \<Rightarrow> props \<Rightarrow> props" where
  "merge a b = foldl (\<lambda>a' key. assign a' key (get_prop b key)) a (map fst b)"

text \<open>
  \<open>toAMQPMessage\<close> (lines 205-225). The \<open>try\<close> around \<open>JSON.stringify\<close> leaves \<open>c\<close> as it was
  when the call throws.
\<close>

definition toAMQPMessage :: "env \<Rightarrow> jsval \<Rightarrow> js_error + jsval" where
  "toAMQPMessage rt message =
     (case copy message of
        Inl e \<Rightarrow> Inl e
      | Inr c0 \<Rightarrow>
          let c1 = (if typeof c0 = ''object'' \<and> \<not> isBuffer c0 then
                      (case JSON_stringify rt c0 of
                         Inl e \<Rightarrow> c0
                       | Inr None \<Rightarrow> Undefined
                       | Inr (Some s) \<Rightarrow> Str s)
                    else c0)
          in (case (if typeof c1 \<noteq> ''string'' then toString c1 else Inr c1) of
                Inl e \<Rightarrow> Inl e
              | Inr c2 \<Rightarrow> Inr (if typeof c2 = ''string'' then new_Buffer c2 else c2)))"

text \<open>
  \<open>fromAMQPMessage\<close> (lines 232-245). The copy is taken first, then the content is looked
  at; the \<open>try\<close> around \<open>JSON.parse\<close> leaves the text when the call throws.
\<close>

definition fromAMQPMessage :: "env \<Rightarrow> jsval \<Rightarrow> js_error + jsval" where
  "fromAMQPMessage rt message =
     (case copy message of
        Inl e \<Rightarrow> Inl e
      | Inr obj \<Rightarrow>
          if truthy message \<and> truthy (get_member message ''content'') then
            (case toString (get_member message ''content'') of
               Inl e \<Rightarrow> Inl e
             | Inr t \<Rightarrow>
                 (case JSON_parse rt (to_text t) of
                    Inl e \<Rightarrow> Inr t
                  | Inr v \<Rightarrow> Inr v))
          else Inr obj)"

section \<open>The client\<close>

text \<open>
  The object built by the constructor (lines 37-45): the queue table, the table of RPC
  callbacks and the table of exchange bindings, each a map from names. With them the
  model keeps what the client does to the outside: the calls on the channel with their
  outcomes, the calls of application callbacks (callback, error argument, value
  argument), the texts passed to \<open>console.warn\<close>, and the number of \<open>uuid()\<close> calls made.
  The reply of \<open>assertQueue\<close> is read for its \<open>queue\<close> field only.
\<close>

record queue_ok =
  queue :: string

record rpc_callback =
  cb :: callback
  autoDelete :: "bool option"

datatype warning = Warning string | WarnError js_error

record bunnydo =
  queues :: "string \<rightharpoonup> queue_ok"
  rpcCB :: "string \<rightharpoonup> rpc_callback"
  exBindings :: "string \<rightharpoonup> queue_ok"
  ch :: "chan_call list"
  invoked :: "(callback \<times> js_error option \<times> jsval) list"
  warnings :: "warning list"
  uuids :: nat

text \<open>
  A table is a plain object \<open>{}\<close> used as a map from names. \<open>table_get\<close> is the lookup
  \<open>tbl[k]\<close>: the entry stored under the name; or, for a name that every object inherits
  from \<open>Object.prototype\<close>, the inherited member, which is truthy and has none of the
  fields of an entry; or \<open>undefined\<close>. Storing an entry under the name \<open>__proto__\<close> makes
  it the prototype of the table: the lookup of \<open>__proto__\<close> then gives the entry, which
  is how the map keeps it, and \<open>delete\<close> does not remove it. The fields of such an entry
  would be found in the table under their own names too; the model does not follow
  that, and is the code's lookup for a table that holds no entry under \<open>__proto__\<close>.
\<close>

definition object_prototype_names :: "string list" where
  "object_prototype_names =
     [''constructor'', ''__defineGetter__'', ''__defineSetter__'', ''hasOwnProperty'',
      ''__lookupGetter__'', ''__lookupSetter__'', ''isPrototypeOf'', ''propertyIsEnumerable'',
      ''toString'', ''valueOf'', ''__proto__'', ''toLocaleString'']"

datatype 'a found = Absent | Entry 'a | Inherited

definition table_get :: "(string \<rightharpoonup> 'a) \<Rightarrow> string \<Rightarrow> 'a found" where
  "table_get tbl k =
     (case tbl k of
        Some v \<Rightarrow> Entry v
      | None \<Rightarrow> if k \<in> set object_prototype_names then Inherited else Absent)"

text \<open>\<open>delete tbl[k]\<close>.\<close>

definition table_delete :: "(string \<rightharpoonup> 'a) \<Rightarrow> string \<Rightarrow> (string \<rightharpoonup> 'a)" where
  "table_delete tbl k = (if k = ''__proto__'' then tbl else tbl(k := None))"

definition Bunnydo :: bunnydo where
  "Bunnydo = \<lparr>queues = Map.empty, rpcCB = Map.empty, exBindings = Map.empty,
              ch = [], invoked = [], warnings = [], uuids = 0\<rparr>"

text \<open>
  An operation returns the client after it and the exception that left it, if any: one
  thrown to the caller, or one raised inside a promise callback and so lost as a rejected
  promise. Either way what was changed before it stays changed.
\<close>

type_synonym result = "bunnydo \<times> js_error option"

text \<open>A call on the channel: the broker decides its outcome; the call is recorded.\<close>

definition chan_call :: "env \<Rightarrow> chan_op \<Rightarrow> bunnydo \<Rightarrow> result" where
  "chan_call rt op st =
     (let r = broker rt (ch st) op in (st\<lparr>ch := ch st @ [(op, r)]\<rparr>, r))"

text \<open>The reply of a successful \<open>ch.assertQueue\<close>: the name asked for, or the broker's.\<close>

definition declared :: "env \<Rightarrow> chan_call list \<Rightarrow> string \<Rightarrow> queue_ok" where
  "declared rt calls queue_name =
     \<lparr>queue = (if queue_name = [] then server_name rt calls else queue_name)\<rparr>"

text \<open>Calling an application callback.\<close>

definition invoke :: "callback \<Rightarrow> js_error option \<Rightarrow> jsval \<Rightarrow> bunnydo \<Rightarrow> bunnydo" where
  "invoke fn err v st =
     (case fn of Noop \<Rightarrow> st | UserFn n \<Rightarrow> st\<lparr>invoked := invoked st @ [(fn, err, v)]\<rparr>)"

definition warn :: "warning \<Rightarrow> bunnydo \<Rightarrow> bunnydo" where
  "warn w st = st\<lparr>warnings := warnings st @ [w]\<rparr>"

subsection \<open>Queue setup\<close>

text \<open>
  \<open>assertQueue\<close> (lines 90-108). The callback \<open>fn\<close> is the continuation: it gets the error
  or the reply. A callback passed in the place of \<open>options\<close> is the call with \<open>options\<close>
  undefined, here \<open>None\<close>.
\<close>

definition assertQueue ::
  "env \<Rightarrow> string \<Rightarrow> props option \<Rightarrow>
   (js_error option \<Rightarrow> queue_ok option \<Rightarrow> bunnydo \<Rightarrow> result) \<Rightarrow> bunnydo \<Rightarrow> result" where
  "assertQueue rt queue_name options fn st =
     (let st1 = (if queue_name \<noteq> [] \<and> table_get (queues st) queue_name \<noteq> Absent
                 then warn (Warning ''adding queue that already exists'') st else st)
      in case chan_call rt (AssertQueue queue_name options) st1 of
           (st2, None) \<Rightarrow> fn None (Some (declared rt (ch st1) queue_name)) st2
         | (st2, Some e) \<Rightarrow> fn (Some e) None st2)"


text \<open>The name of the private reply queue (line 163).\<close>

definition rpc_queue_name :: "env \<Rightarrow> string \<Rightarrow> string" where
  "rpc_queue_name rt queue_name = queue_name @ ''_rpc_queue_'' @ string_of_nat (pid rt)"

text \<open>
  \<open>addRpcQueue\<close> (lines 147-185). When the reply of \<open>assertQueue\<close> is missing or the queue
  name is empty, nothing more is done and \<open>fn\<close> is not called.
\<close>

definition addRpcQueue ::
  "env \<Rightarrow> string \<Rightarrow> props option \<Rightarrow>
   (js_error option \<Rightarrow> queue_ok option \<Rightarrow> bunnydo \<Rightarrow> result) \<Rightarrow> bunnydo \<Rightarrow> result" where
  "addRpcQueue rt queue_name options fn st =
     (let options1 = (case options of None \<Rightarrow> [] | Some opts \<Rightarrow> opts);
          options2 = (if typeof (get_prop options1 ''exclusive'') \<noteq> ''boolean''
                      then set_prop options1 ''exclusive'' (Bool True) else options1);
          inQ = rpc_queue_name rt queue_name
      in if (case table_get (queues st) queue_name of
               Entry q \<Rightarrow> queue q \<noteq> [] \<and> queue q = inQ
             | _ \<Rightarrow> False)
         then fn None (queues st queue_name) st
         else assertQueue rt inQ (Some options2)
                (\<lambda>err q st'.
                   case q of
                     None \<Rightarrow> (st', None)
                   | Some q' \<Rightarrow>
                       if queue_name \<noteq> [] then
                         (case chan_call rt (Consume (queue q') RpcReplyHandler
                                               (Some [(''noAck'', Bool True)]))
                                 (st'\<lparr>queues := (queues st')(queue_name \<mapsto> q')\<rparr>) of
                            (st3, None) \<Rightarrow> fn None (Some q') st3
                          | (st3, Some e) \<Rightarrow> fn (Some e) None st3)
                       else (st', None))
                st)"

subsection \<open>The table of RPC callbacks\<close>

text \<open>\<open>deleteRpcCallback\<close> (lines 251-254).\<close>

definition deleteRpcCallback :: "string \<Rightarrow> bunnydo \<Rightarrow> bunnydo" where
  "deleteRpcCallback corrId st = st\<lparr>rpcCB := table_delete (rpcCB st) corrId\<rparr>"

text \<open>
  \<open>rpcHandler\<close> (lines 260-283), the consumer of the reply queue. The two \<open>else\<close> branches
  only write to the debug log. When the lookup of the id finds an inherited member, the
  first branch is taken with \<open>cb\<close> undefined, and calling it (line 271) is a TypeError.
\<close>

definition rpcHandler :: "env \<Rightarrow> message \<Rightarrow> bunnydo \<Rightarrow> result" where
  "rpcHandler rt msg st =
     (let corrId = opt_str (correlationId (properties msg))
      in if truthy corrId then
           (case table_get (rpcCB st) (to_text corrId) of
              Entry cbObj \<Rightarrow>
                (case fromAMQPMessage rt (js_of_message msg) of
                   Inl e \<Rightarrow> (st, Some e)
                 | Inr reply \<Rightarrow>
                     let st1 = invoke (cb cbObj) None reply st
                     in (if autoDelete cbObj \<noteq> Some False
                         then deleteRpcCallback (to_text corrId) st1 else st1, None))
            | Inherited \<Rightarrow>
                (case fromAMQPMessage rt (js_of_message msg) of
                   Inl e \<Rightarrow> (st, Some e)
                 | Inr reply \<Rightarrow> (st, Some TypeError))
            | Absent \<Rightarrow> (st, None))
         else (st, None))"

subsection \<open>Sending\<close>

text \<open>
  \<open>send\<close> (lines 293-306): encode, publish, then \<open>fn()\<close>. An exception of the encoding or
  of \<open>sendToQueue\<close> leaves the function before \<open>fn\<close> is called.
\<close>

definition send ::
  "env \<Rightarrow> string \<Rightarrow> jsval \<Rightarrow> props option \<Rightarrow>
   (js_error option \<Rightarrow> bunnydo \<Rightarrow> result) \<Rightarrow> bunnydo \<Rightarrow> result" where
  "send rt queue_name message options fn st =
     (case toAMQPMessage rt message of
        Inl e \<Rightarrow> (st, Some e)
      | Inr data \<Rightarrow>
          (case chan_call rt (SendToQueue queue_name data options) st of
             (st1, Some e) \<Rightarrow> (st1, Some e)
           | (st1, None) \<Rightarrow> fn None st1))"

text \<open>An application callback as a continuation of \<open>send\<close>.\<close>

definition done_callback :: "callback \<Rightarrow> js_error option \<Rightarrow> bunnydo \<Rightarrow> result" where
  "done_callback fn err st = (invoke fn err Undefined st, None)"



text \<open>
  The callback that \<open>dorpc\<close> gives to \<open>send\<close> (lines 386-391): on an error it reports to
  \<open>fn\<close> and removes the entry.
\<close>

definition rpc_rollback :: "callback \<Rightarrow> string \<Rightarrow> js_error option \<Rightarrow> bunnydo \<Rightarrow> result" where
  "rpc_rollback fn corrId err st =
     (case err of
        Some e \<Rightarrow> (let st1 = invoke fn (Some e) Undefined st
                   in (st1\<lparr>rpcCB := table_delete (rpcCB st1) corrId\<rparr>, None))
      | None \<Rightarrow> (st, None))"

text \<open>\<open>dorpc\<close> (lines 368-392).\<close>

definition dorpc ::
  "env \<Rightarrow> string \<Rightarrow> jsval \<Rightarrow> props \<Rightarrow> callback \<Rightarrow> string \<Rightarrow> bunnydo \<Rightarrow> result" where
  "dorpc rt queue_name message options fn reply_to st =
     (let opts1 = merge [] options;
          corrId = uuid rt (uuids st);
          st1 = st\<lparr>uuids := Suc (uuids st)\<rparr>;
          opts2 = set_prop opts1 ''correlationId'' (Str corrId);
          opts3 = set_prop opts2 ''replyTo'' (Str reply_to);
          auto_delete = (case get_prop options ''autoDeleteCallback'' of
                           Bool b \<Rightarrow> b
                         | _ \<Rightarrow> True);
          st2 = st1\<lparr>rpcCB := (rpcCB st1)(corrId \<mapsto> \<lparr>cb = fn, autoDelete = Some auto_delete\<rparr>)\<rparr>
      in send rt queue_name message (Some opts3) (rpc_rollback fn corrId) st2)"

text \<open>\<open>rpc\<close> (lines 356-402).\<close>

definition rpc ::
  "env \<Rightarrow> string \<Rightarrow> jsval \<Rightarrow> props option \<Rightarrow> callback \<Rightarrow> bunnydo \<Rightarrow> result" where
  "rpc rt queue_name message options fn st =
     (let options1 = (case options of None \<Rightarrow> [] | Some opts \<Rightarrow> opts)
      in addRpcQueue rt queue_name (Some [])
           (\<lambda>err q st'.
              case err of
                None \<Rightarrow> (case q of
                           Some q' \<Rightarrow> dorpc rt queue_name message options1 fn (queue q') st'
                         | None \<Rightarrow> (st', Some TypeError))
              | Some e \<Rightarrow> (invoke fn (Some e) Undefined st', None))
           st)"

subsection \<open>Serving RPC requests\<close>

text \<open>
  \<open>replyFn\<close> (lines 482-494) of one request. It closes over the flag \<open>ackd\<close>, which is
  passed along with the client.
\<close>

definition replyFn ::
  "env \<Rightarrow> message \<Rightarrow> jsval \<Rightarrow> bunnydo \<times> bool \<Rightarrow> (bunnydo \<times> bool) \<times> js_error option" where
  "replyFn rt msg response s =
     (let (st, ackd) = s;
          replyQ = opt_str (replyTo (properties msg));
          corrId = opt_str (correlationId (properties msg));
          msgOpts = [(''correlationId'', corrId)]
      in if truthy replyQ \<and> truthy corrId then
           (case toAMQPMessage rt response of
              Inl e \<Rightarrow> ((st, ackd), Some e)
            | Inr outData \<Rightarrow>
                (case chan_call rt (SendToQueue (to_text replyQ) outData (Some msgOpts)) st of
                   (st1, Some e) \<Rightarrow> ((st1, ackd), Some e)
                 | (st1, None) \<Rightarrow>
                     if \<not> ackd then
                       (case chan_call rt (Ack msg) st1 of
                          (st2, Some e) \<Rightarrow> ((st2, ackd), Some e)
                        | (st2, None) \<Rightarrow> ((st2, True), None))
                     else ((st1, ackd), None)))
         else ((st, ackd), None))"

text \<open>
  The calls of \<open>replyFn\<close> that a handler makes for one request, in order. A call that
  throws does not stop the handler from calling again.
\<close>

fun reply_calls :: "env \<Rightarrow> message \<Rightarrow> jsval list \<Rightarrow> bunnydo \<times> bool \<Rightarrow> bunnydo \<times> bool" where
  "reply_calls rt msg [] s = s"
| "reply_calls rt msg (response # responses) s =
     reply_calls rt msg responses (fst (replyFn rt msg response s))"

text \<open>
  The consumer that \<open>onRpc\<close> registers (lines 468-499), run on one request. The handler
  is application code: \<open>responses\<close> are the arguments of the calls of \<open>replyFn\<close> it makes.
  The library's \<open>noop\<close> makes none.
\<close>

definition onRpc_consumer ::
  "env \<Rightarrow> callback \<Rightarrow> jsval list \<Rightarrow> message \<Rightarrow> bunnydo \<Rightarrow> result" where
  "onRpc_consumer rt fn responses msg st =
     (case fromAMQPMessage rt (js_of_message msg) of
        Inl e \<Rightarrow> (st, Some e)
      | Inr inData \<Rightarrow>
          (fst (reply_calls rt msg (if fn = Noop then [] else responses)
                  (invoke fn None inData st, False)), None))"

subsection \<open>Subscribing to an exchange\<close>








section \<open>What the channel has seen\<close>

text \<open>
  The properties below are read off the recorded channel calls: the queue declarations
  and the publishes to a queue made (whatever their outcome), and, among the calls that
  succeeded, the queues bound to an exchange, the consumers subscribed to a queue and
  the acknowledgments of a message.
\<close>

fun declared_by_call :: "chan_call \<Rightarrow> (string \<times> props option) list" where
  "declared_by_call (AssertQueue n opts, r) = [(n, opts)]"
| "declared_by_call c = []"

definition declarations :: "chan_call list \<Rightarrow> (string \<times> props option) list" where
  "declarations calls = concat (map declared_by_call calls)"

fun published_by_call :: "chan_call \<Rightarrow> (string \<times> jsval \<times> props option) list" where
  "published_by_call (SendToQueue q data opts, r) = [(q, data, opts)]"
| "published_by_call c = []"

definition publishes :: "chan_call list \<Rightarrow> (string \<times> jsval \<times> props option) list" where
  "publishes calls = concat (map published_by_call calls)"



fun subscribed_by_call :: "string \<Rightarrow> chan_call \<Rightarrow> consumer list" where
  "subscribed_by_call q (Consume q' h opts, None) = (if q' = q then [h] else [])"
| "subscribed_by_call q c = []"

definition consumers :: "chan_call list \<Rightarrow> string \<Rightarrow> consumer list" where
  "consumers calls q = concat (map (subscribed_by_call q) calls)"

fun acked_by_call :: "message \<Rightarrow> chan_call \<Rightarrow> nat" where
  "acked_by_call m (Ack m', None) = (if m' = m then 1 else 0)"
| "acked_by_call m c = 0"

definition acks :: "chan_call list \<Rightarrow> message \<Rightarrow> nat" where
  "acks calls m = sum_list (map (acked_by_call m) calls)"

section \<open>Example runtimes\<close>

text \<open>
  Concrete environments for the examples. \<open>example_stringify\<close> and \<open>example_parse\<close> give
  \<open>JSON.stringify\<close> and \<open>JSON.parse\<close> at the values and texts the examples use; the process
  id is 42, every channel call succeeds. \<open>closed_env\<close> is the same with a channel on
  which \<open>sendToQueue\<close> throws.
\<close>

definition example_stringify :: "jsval \<Rightarrow> js_error + string option" where
  \<open>example_stringify v =
     (if v = Obj [(''x'', Num 5)] then Inr (Some ''{"x":5}'')
      else if v = Obj [(''0'', Num 104), (''1'', Num 105)] then Inr (Some ''{"0":104,"1":105}'')
      else if v = Obj [(''0'', Num 1), (''1'', Num 2)] then Inr (Some ''{"0":1,"1":2}'')
      else Inl TypeError)\<close>

definition example_parse :: "string \<Rightarrow> js_error + jsval" where
  \<open>example_parse s =
     (if s = ''{"x":5}'' then Inr (Obj [(''x'', Num 5)])
      else if s = ''{"0":104,"1":105}'' then Inr (Obj [(''0'', Num 104), (''1'', Num 105)])
      else if s = ''{"0":1,"1":2}'' then Inr (Obj [(''0'', Num 1), (''1'', Num 2)])
      else Inl SyntaxError)\<close>

definition example_env :: env where
  "example_env =
     \<lparr>pid = 42, JSON_stringify = example_stringify, JSON_parse = example_parse,
      uuid = (\<lambda>n. ''uuid-'' @ string_of_nat n), broker = (\<lambda>calls op. None),
      server_name = (\<lambda>calls. ''amq.gen-1'')\<rparr>"

definition closed_env :: env where
  "closed_env =
     example_env\<lparr>broker := (\<lambda>calls op. case op of
                                 SendToQueue q d opts \<Rightarrow> Some (ChannelError ''Channel closed'')
                               | _ \<Rightarrow> None)\<rparr>"

text \<open>A request on the queue \<open>echo\<close>, with a reply address and a correlation id.\<close>

definition example_request :: message where
  \<open>example_request =
     \<lparr>msg_fields = \<lparr>deliveryTag = 1, exchange = '''', routingKey = ''echo''\<rparr>,
      properties = \<lparr>correlationId = Some ''uuid-0'', replyTo = Some ''echo_rpc_queue_42''\<rparr>,
      content = Some ''{"x":5}''\<rparr>\<close>

section \<open>Properties of the codec\<close>

subsection \<open>Copying\<close>

lemma set_prop_fresh: "k \<notin> fst ` set ps \<Longrightarrow> set_prop ps k v = ps @ [(k, v)]"
  by (induction ps) auto

lemma foldl_assign:
  "distinct ks \<Longrightarrow> set ks \<inter> fst ` set acc = {} \<Longrightarrow> ''__proto__'' \<notin> set ks \<Longrightarrow>
   foldl (\<lambda>a i. assign a i (f i)) acc ks = acc @ map (\<lambda>k. (k, f k)) ks"
proof (induction ks arbitrary: acc)
  case Nil
  then show ?case by simp
next
  case (Cons k ks)
  have "assign acc k (f k) = acc @ [(k, f k)]"
    using Cons.prems by (auto simp add: assign_def set_prop_fresh)
  moreover have "foldl (\<lambda>a i. assign a i (f i)) (acc @ [(k, f k)]) ks
        = (acc @ [(k, f k)]) @ map (\<lambda>k. (k, f k)) ks"
    using Cons.prems by (intro Cons.IH) auto
  ultimately show ?case by simp
qed

lemma get_prop_distinct:
  assumes "distinct (map fst ps)"
  shows "map (\<lambda>k. (k, get_prop ps k)) (map fst ps) = ps"
proof -
  have "(fst x, get_prop ps (fst x)) = x" if "x \<in> set ps" for x
  proof -
    have "map_of ps (fst x) = Some (snd x)"
      using assms that by (intro map_of_is_SomeI) simp_all
    then show ?thesis by (simp add: get_prop_def)
  qed
  then have "map (\<lambda>x. (fst x, get_prop ps (fst x))) ps = ps"
    by (intro map_idI)
  then show ?thesis by (simp add: comp_def)
qed

text \<open>
  The copy of an object that has no property \<open>__proto__\<close> of its own is an object with
  the same properties.
\<close>

lemma copy_Obj:
  "distinct (map fst ps) \<Longrightarrow> ''__proto__'' \<notin> fst ` set ps \<Longrightarrow> copy (Obj ps) = Inr (Obj ps)"
  using foldl_assign [of "map fst ps" "[]" "get_prop ps"] get_prop_distinct [of ps]
  by (simp add: copy_def object_keys_def get_member_def)

text \<open>The copy of a Buffer is the copy of the plain object of its indices.\<close>

lemma copy_Buf: "copy (Buf b) = copy (Obj (own_props (Buf b)))"
  by (simp add: copy_def object_keys_def get_member_def)

text \<open>So is the copy of an array: a message that is an array is encoded as an object.\<close>

lemma copy_Arr: "copy (Arr xs) = copy (Obj (own_props (Arr xs)))"
  by (simp add: copy_def object_keys_def get_member_def)

text \<open>Only \<open>null\<close> makes \<open>copy\<close> throw.\<close>

lemma copy_fails: "copy v = Inl e \<longleftrightarrow> v = Null \<and> e = TypeError"
  by (cases v) (auto simp add: copy_def object_keys_def)

subsection \<open>Text of bytes\<close>

text \<open>Bytes below 128 are their own text.\<close>

lemma utf8_scan_ascii:
  "\<forall>c\<in>set s. (of_char c :: nat) < 128 \<Longrightarrow> utf8_scan [] 0 lower upper s = s"
  by (induction s arbitrary: lower upper) simp_all

lemma utf8_text_ascii: "\<forall>c\<in>set s. (of_char c :: nat) < 128 \<Longrightarrow> utf8_text s = s"
  by (simp add: utf8_text_def utf8_scan_ascii)

subsection \<open>Encoding and decoding\<close>


lemma content_of_message:
  "get_member (js_of_message m) ''content''
     = (case content m of None \<Rightarrow> Undefined | Some b \<Rightarrow> Buf b)"
  by (simp add: get_member_def js_of_message_def get_prop_def split: option.splits)

lemma copy_message: "copy (js_of_message m) = Inr (js_of_message m)"
  unfolding js_of_message_def by (rule copy_Obj) (auto split: option.splits)

lemma truthy_message: "truthy (js_of_message m)"
  by (simp add: js_of_message_def)

text \<open>What \<open>fromAMQPMessage\<close> returns on a delivered message.\<close>

lemma fromAMQPMessage_message:
  "fromAMQPMessage rt (js_of_message m) =
     (case content m of
        None \<Rightarrow> Inr (js_of_message m)
      | Some b \<Rightarrow> (case JSON_parse rt (utf8_text b) of
                    Inl e \<Rightarrow> Inr (Str (utf8_text b))
                  | Inr v \<Rightarrow> Inr v))"
proof (cases "content m")
  case None
  then show ?thesis
    by (simp add: fromAMQPMessage_def copy_message content_of_message)
next
  case (Some b)
  then show ?thesis
    by (simp add: fromAMQPMessage_def copy_message content_of_message truthy_message toString_def)
qed

lemma fromAMQPMessage_total: "\<exists>v. fromAMQPMessage rt (js_of_message m) = Inr v"
  by (simp add: fromAMQPMessage_message split: option.splits sum.splits)

text \<open>
  The one value on which \<open>fromAMQPMessage\<close> throws is \<open>null\<close>, which is what amqplib
  passes to a consumer that the broker cancels: the copy is taken before the test of
  line 234.
\<close>

lemma fromAMQPMessage_fails: "fromAMQPMessage rt v = Inl e \<longleftrightarrow> v = Null \<and> e = TypeError"
proof (cases "v = Null")
  case True
  then show ?thesis
    by (auto simp add: fromAMQPMessage_def copy_def object_keys_def)
next
  case False
  then have "\<exists>c. copy v = Inr c"
    using copy_fails [of v] by (cases "copy v") auto
  then obtain c where "copy v = Inr c" ..
  with False show ?thesis
    by (auto simp add: fromAMQPMessage_def toString_def split: sum.splits)
qed

subsection \<open>The examples\<close>



lemma example_text: \<open>utf8_text ''{"x":5}'' = ''{"x":5}''\<close>
  by (rule utf8_text_ascii) simp

lemma decode_example:
  "fromAMQPMessage example_env (js_of_message example_request) = Inr (Obj [(''x'', Num 5)])"
  by (simp add: fromAMQPMessage_message example_request_def example_env_def example_parse_def
        example_text)

subsection \<open>Claims on the codec\<close>

text \<open>
  Claim C3. The claim is that encoding never fails, passes a Buffer through unchanged,
  serializes an object as JSON and falls back to the plain text of a value that cannot
  be serialized. The code does not pass a Buffer through: \<open>copy\<close> turns it into the
  plain object of its indices before the test \<open>Buffer.isBuffer\<close> of line 208, so the
  bytes \<open>hi\<close> are sent as the JSON text of \<open>{0: 104, 1: 105}\<close>. And encoding fails with
  a TypeError on \<open>null\<close> (in \<open>Object.keys\<close>) and on \<open>undefined\<close> (in \<open>toString\<close>).
\<close>

theorem toAMQPMessage_Buffer_not_passed_through:
  \<open>toAMQPMessage rt (Buf b) = toAMQPMessage rt (Obj (own_props (Buf b)))
   \<and> toAMQPMessage example_env (Buf ''hi'') = Inr (Buf ''{"0":104,"1":105}'')
   \<and> toAMQPMessage rt Null = Inl TypeError
   \<and> toAMQPMessage rt Undefined = Inl TypeError\<close>
proof -
  have \<open>toAMQPMessage example_env (Buf ''hi'') = Inr (Buf ''{"0":104,"1":105}'')\<close>
    by code_simp
  moreover have "toAMQPMessage rt (Buf b) = toAMQPMessage rt (Obj (own_props (Buf b)))"
    by (simp add: toAMQPMessage_def copy_Buf)
  moreover have "toAMQPMessage rt Null = Inl TypeError"
    by (simp add: toAMQPMessage_def copy_def object_keys_def)
  moreover have "toAMQPMessage rt Undefined = Inl TypeError"
    by (simp add: toAMQPMessage_def copy_def toString_def)
  ultimately show ?thesis by simp
qed




text \<open>
  Claim C7. The claim is that decoding never fails, gives the text of a payload that is
  not JSON, and gives a copy of the fields of a message that carries no payload. A
  delivery with an empty body has a Buffer of length zero, which is truthy: it is
  decoded as the empty text, not as a copy of the message. As the code has it: decoding
  a delivered message, an object, does not fail. When the message has a content, of
  any length, its text is the bytes decoded as UTF-8, and the message decodes to what
  \<open>JSON.parse\<close> gives for this text, or to this text when \<open>JSON.parse\<close> throws on it; so
  an empty body, on which \<open>JSON.parse\<close> throws, decodes to the empty text. A message
  object without a content decodes to a copy of the message object.
\<close>

theorem fromAMQPMessage_never_fails:
  "(\<exists>v. fromAMQPMessage rt (js_of_message m) = Inr v)
   \<and> (\<forall>b e. content m = Some b \<and> JSON_parse rt (utf8_text b) = Inl e \<longrightarrow>
          fromAMQPMessage rt (js_of_message m) = Inr (Str (utf8_text b)))
   \<and> (\<forall>b v. content m = Some b \<and> JSON_parse rt (utf8_text b) = Inr v \<longrightarrow>
          fromAMQPMessage rt (js_of_message m) = Inr v)
   \<and> (\<forall>e. content m = Some [] \<and> JSON_parse rt [] = Inl e \<longrightarrow>
          fromAMQPMessage rt (js_of_message m) = Inr (Str []))
   \<and> (content m = None \<longrightarrow> fromAMQPMessage rt (js_of_message m) = Inr (js_of_message m))"
  by (simp add: fromAMQPMessage_message utf8_text_def split: option.splits sum.splits)

text \<open>
  The text \<open>fire\<close> is not JSON and comes back as it is; the text of \<open>{x: 5}\<close> comes back
  as the object; an empty body comes back as the empty text; a message without content
  as the message.
\<close>

theorem fromAMQPMessage_never_fails_witness:
  \<open>content (example_request\<lparr>content := Some ''fire''\<rparr>) = Some ''fire''
   \<and> JSON_parse example_env (utf8_text ''fire'') = Inl SyntaxError
   \<and> fromAMQPMessage example_env (js_of_message (example_request\<lparr>content := Some ''fire''\<rparr>))
       = Inr (Str ''fire'')
   \<and> content example_request = Some ''{"x":5}''
   \<and> JSON_parse example_env (utf8_text ''{"x":5}'') = Inr (Obj [(''x'', Num 5)])
   \<and> fromAMQPMessage example_env (js_of_message example_request) = Inr (Obj [(''x'', Num 5)])
   \<and> content (example_request\<lparr>content := Some []\<rparr>) = Some []
   \<and> JSON_parse example_env [] = Inl SyntaxError
   \<and> fromAMQPMessage example_env (js_of_message (example_request\<lparr>content := Some []\<rparr>)) = Inr (Str [])
   \<and> content (example_request\<lparr>content := None\<rparr>) = None
   \<and> fromAMQPMessage example_env (js_of_message (example_request\<lparr>content := None\<rparr>))
       = Inr (js_of_message (example_request\<lparr>content := None\<rparr>))\<close>
proof -
  have t: "utf8_text ''fire'' = ''fire''"
    by (rule utf8_text_ascii) simp
  have p: "JSON_parse example_env ''fire'' = Inl SyntaxError"
    by (simp add: example_env_def example_parse_def)
  have q: \<open>JSON_parse example_env ''{"x":5}'' = Inr (Obj [(''x'', Num 5)])\<close>
    by (simp add: example_env_def example_parse_def)
  have r: "JSON_parse example_env [] = Inl SyntaxError"
    by (simp add: example_env_def example_parse_def)
  have c: \<open>content example_request = Some ''{"x":5}''\<close>
    by (simp add: example_request_def)
  show ?thesis
    using fromAMQPMessage_never_fails [of example_env "example_request\<lparr>content := Some ''fire''\<rparr>"]
      fromAMQPMessage_never_fails [of example_env example_request]
      fromAMQPMessage_never_fails [of example_env "example_request\<lparr>content := Some []\<rparr>"]
      fromAMQPMessage_never_fails [of example_env "example_request\<lparr>content := None\<rparr>"]
      t p q r c example_text
    by simp
qed

text \<open>The message with an empty body does not decode to a copy of itself.\<close>

theorem fromAMQPMessage_empty_body_counterexample:
  "fromAMQPMessage example_env (js_of_message (example_request\<lparr>content := Some []\<rparr>))
     \<noteq> Inr (js_of_message (example_request\<lparr>content := Some []\<rparr>))"
  by code_simp

section \<open>Properties of the client\<close>

subsection \<open>Reading the recorded calls\<close>

lemma declarations_append: "declarations (xs @ ys) = declarations xs @ declarations ys"
  by (simp add: declarations_def)

lemma declarations_Nil: "declarations [] = []"
  by (simp add: declarations_def)

lemma declarations_Cons: "declarations (c # calls) = declared_by_call c @ declarations calls"
  by (simp add: declarations_def)

lemma publishes_append: "publishes (xs @ ys) = publishes xs @ publishes ys"
  by (simp add: publishes_def)

lemma publishes_Nil: "publishes [] = []"
  by (simp add: publishes_def)

lemma publishes_Cons: "publishes (c # calls) = published_by_call c @ publishes calls"
  by (simp add: publishes_def)


lemma consumers_append: "consumers (xs @ ys) q = consumers xs q @ consumers ys q"
  by (simp add: consumers_def)

lemma consumers_Nil: "consumers [] q = []"
  by (simp add: consumers_def)

lemma consumers_Cons: "consumers (c # calls) q = subscribed_by_call q c @ consumers calls q"
  by (simp add: consumers_def)

lemma acks_append: "acks (xs @ ys) m = acks xs m + acks ys m"
  by (simp add: acks_def)

lemma acks_Nil: "acks [] m = 0"
  by (simp add: acks_def)

lemma acks_Cons: "acks (c # calls) m = acked_by_call m c + acks calls m"
  by (simp add: acks_def)

lemmas trace_simps = declarations_append declarations_Cons declarations_Nil
  consumers_append consumers_Cons consumers_Nil publishes_append publishes_Cons publishes_Nil

subsection \<open>Tables\<close>

lemma table_get_Some: "tbl k = Some v \<Longrightarrow> table_get tbl k = Entry v"
  by (simp add: table_get_def)

lemma table_get_Entry: "table_get tbl k = Entry v \<longleftrightarrow> tbl k = Some v"
  by (simp add: table_get_def split: option.splits)

lemma table_get_Absent: "table_get tbl k = Absent \<Longrightarrow> tbl k = None"
  by (simp add: table_get_def split: option.splits if_splits)

subsection \<open>Steps that leave most of the client alone\<close>

lemma chan_call_eq:
  "chan_call rt op st = (st\<lparr>ch := ch st @ [(op, broker rt (ch st) op)]\<rparr>, broker rt (ch st) op)"
  by (simp add: chan_call_def Let_def)

lemma invoked_invoke:
  "invoked (invoke fn err v st)
     = invoked st @ (case fn of Noop \<Rightarrow> [] | UserFn n \<Rightarrow> [(fn, err, v)])"
  by (simp add: invoke_def split: callback.splits)

lemma invoke_fields [simp]:
  "ch (invoke fn err v st) = ch st" "queues (invoke fn err v st) = queues st"
  "rpcCB (invoke fn err v st) = rpcCB st" "exBindings (invoke fn err v st) = exBindings st"
  "uuids (invoke fn err v st) = uuids st" "warnings (invoke fn err v st) = warnings st"
  by (simp_all add: invoke_def split: callback.splits)

lemma warn_fields [simp]:
  "ch (warn w st) = ch st" "queues (warn w st) = queues st" "rpcCB (warn w st) = rpcCB st"
  "invoked (warn w st) = invoked st" "uuids (warn w st) = uuids st"
  by (simp_all add: warn_def)

lemma deleteRpcCallback_fields [simp]:
  "rpcCB (deleteRpcCallback c st) = table_delete (rpcCB st) c"
  "ch (deleteRpcCallback c st) = ch st" "invoked (deleteRpcCallback c st) = invoked st"
  by (simp_all add: deleteRpcCallback_def)

subsection \<open>Sending\<close>

text \<open>The three ways out of \<open>send\<close>.\<close>

lemma send_eq:
  "send rt q m opts fn st =
     (case toAMQPMessage rt m of
        Inl e \<Rightarrow> (st, Some e)
      | Inr data \<Rightarrow>
          (case broker rt (ch st) (SendToQueue q data opts) of
             Some e \<Rightarrow> (st\<lparr>ch := ch st @ [(SendToQueue q data opts, Some e)]\<rparr>, Some e)
           | None \<Rightarrow> fn None (st\<lparr>ch := ch st @ [(SendToQueue q data opts, None)]\<rparr>)))"
  by (simp add: send_def chan_call_eq split: sum.splits option.splits)


lemma send_done_publishes:
  "\<exists>sent. publishes (ch (fst (send rt q m opts (done_callback fn) st))) = publishes (ch st) @ sent
      \<and> (sent = [] \<or> (\<exists>data. toAMQPMessage rt m = Inr data \<and> sent = [(q, data, opts)]))"
  by (simp add: send_eq done_callback_def trace_simps split: sum.splits option.splits)

text \<open>
  Claim C10. The claim is that \<open>send\<close> calls its callback exactly once, never with an
  error, so that the error branch of the callback of \<open>dorpc\<close> cannot be reached. The
  callback is never given an error, and that branch is dead; but the callback is not
  called at all when the encoding or \<open>sendToQueue\<close> throws. As the code has it: an
  application callback given to \<open>send\<close> is called at most once, with no error, and it
  is not called exactly when \<open>send\<close> is left by an exception; and \<open>send\<close> with the
  rollback callback of \<open>dorpc\<close> does what it does with a callback that does nothing.
\<close>

theorem send_callback_at_most_once:
  "(\<exists>calls. invoked (fst (send rt q m opts (done_callback (UserFn n)) st)) = invoked st @ calls
       \<and> (calls = [] \<or> calls = [(UserFn n, None, Undefined)])
       \<and> (calls = [] \<longleftrightarrow> snd (send rt q m opts (done_callback (UserFn n)) st) \<noteq> None))
   \<and> send rt q m opts (rpc_rollback fn corrId) st = send rt q m opts (\<lambda>err s. (s, None)) st"
proof
  show "\<exists>calls. invoked (fst (send rt q m opts (done_callback (UserFn n)) st)) = invoked st @ calls
       \<and> (calls = [] \<or> calls = [(UserFn n, None, Undefined)])
       \<and> (calls = [] \<longleftrightarrow> snd (send rt q m opts (done_callback (UserFn n)) st) \<noteq> None)"
    by (auto simp add: send_eq done_callback_def invoked_invoke split: sum.splits option.splits)
  show "send rt q m opts (rpc_rollback fn corrId) st = send rt q m opts (\<lambda>err s. (s, None)) st"
    by (simp add: send_eq rpc_rollback_def split: sum.splits option.splits)
qed

text \<open>A send that goes through: the callback is called once, with no error.\<close>

theorem send_callback_at_most_once_witness:
  "invoked (fst (send example_env ''jobs'' (Obj [(''x'', Num 5)]) None (done_callback (UserFn 1)) Bunnydo))
     = [(UserFn 1, None, Undefined)]
   \<and> snd (send example_env ''jobs'' (Obj [(''x'', Num 5)]) None (done_callback (UserFn 1)) Bunnydo) = None
   \<and> send example_env ''jobs'' (Obj [(''x'', Num 5)]) None (rpc_rollback (UserFn 1) ''uuid-0'') Bunnydo
       = send example_env ''jobs'' (Obj [(''x'', Num 5)]) None (\<lambda>err s. (s, None)) Bunnydo"
proof -
  have s: "snd (send example_env ''jobs'' (Obj [(''x'', Num 5)]) None (done_callback (UserFn 1)) Bunnydo)
         = None"
    by code_simp
  have i: "invoked Bunnydo = []"
    by (simp add: Bunnydo_def)
  show ?thesis
    using send_callback_at_most_once [of example_env "''jobs''" "Obj [(''x'', Num 5)]" None 1 Bunnydo
        "UserFn 1" "''uuid-0''"] s i
    by auto
qed

text \<open>Sending \<open>null\<close>: the encoding throws and the callback is not called.\<close>

theorem send_callback_not_called_counterexample:
  "length (invoked (fst (send example_env ''jobs'' Null None (done_callback (UserFn 1)) Bunnydo))) \<noteq> 1
   \<and> snd (send example_env ''jobs'' Null None (done_callback (UserFn 1)) Bunnydo) = Some TypeError"
  by code_simp

subsection \<open>Worker queues\<close>












subsection \<open>RPC requests\<close>







text \<open>
  Claim C2. The claim is that an \<open>rpc\<close> whose publish fails removes the entry it
  registered and reports the error to the caller's callback. The code means to do so in
  the callback it gives to \<open>send\<close> (lines 386-391), but \<open>send\<close> never passes an error:
  when \<open>sendToQueue\<close> throws on a closed channel, the exception leaves \<open>send\<close>, the
  entry stays in the table and the caller's callback is not called.
\<close>

theorem rpc_publish_failure_leaves_entry:
  "snd (rpc closed_env ''echo'' (Obj [(''x'', Num 5)]) None (UserFn 1) Bunnydo)
     = Some (ChannelError ''Channel closed'')
   \<and> rpcCB (fst (rpc closed_env ''echo'' (Obj [(''x'', Num 5)]) None (UserFn 1) Bunnydo)) ''uuid-0''
       = Some \<lparr>cb = UserFn 1, autoDelete = Some True\<rparr>
   \<and> invoked (fst (rpc closed_env ''echo'' (Obj [(''x'', Num 5)]) None (UserFn 1) Bunnydo)) = []"
  by code_simp

subsection \<open>RPC replies\<close>

lemma empty_not_inherited: "[] \<notin> set object_prototype_names"
  by (simp add: object_prototype_names_def)

text \<open>A reply whose id has no entry leaves the client as it is.\<close>

lemma rpcHandler_unknown:
  assumes "case correlationId (properties msg) of None \<Rightarrow> True | Some c \<Rightarrow> rpcCB st c = None"
  shows "rpcHandler rt msg st =
           (st, case correlationId (properties msg) of
                  None \<Rightarrow> None
                | Some c \<Rightarrow> if c \<in> set object_prototype_names then Some TypeError else None)"
proof -
  obtain reply where "fromAMQPMessage rt (js_of_message msg) = Inr reply"
    using fromAMQPMessage_total by blast
  with assms empty_not_inherited show ?thesis
    by (auto simp add: rpcHandler_def Let_def table_get_def split: option.splits)
qed

text \<open>
  Claim C5. A correlation id is a token made by \<open>uuid()\<close>: it is not the empty text,
  which \<open>rpcHandler\<close> takes for a missing id (line 262), and not \<open>__proto__\<close>, so the
  table has no entry under \<open>__proto__\<close>. For a reply with such an id, when the table has
  an entry for the id whose \<open>autoDelete\<close> is unset or true: the reply is decoded, the
  callback of the entry is called with it and the entry is deleted, so that any further
  reply with this id leaves the client as it is, table and calls of callbacks. And a
  reply without an id, or with an id that has no entry, leaves the client as it is. Such
  a reply ends in a TypeError when its id is a name that every object inherits, for
  which the lookup of line 262 finds the inherited member, and without an exception
  for any other id.
\<close>

theorem rpcHandler_dispatch:
  assumes "rpcCB st ''__proto__'' = None"
  shows "(correlationId (properties msg) = Some corrId \<and> corrId \<noteq> [] \<and> rpcCB st corrId = Some entry
      \<and> autoDelete entry \<noteq> Some False \<longrightarrow>
      (\<exists>reply. fromAMQPMessage rt (js_of_message msg) = Inr reply
          \<and> rpcHandler rt msg st = (deleteRpcCallback corrId (invoke (cb entry) None reply st), None))
      \<and> rpcCB (fst (rpcHandler rt msg st)) corrId = None
      \<and> (\<forall>msg'. correlationId (properties msg') = Some corrId \<longrightarrow>
            fst (rpcHandler rt msg' (fst (rpcHandler rt msg st))) = fst (rpcHandler rt msg st)
          \<and> (corrId \<notin> set object_prototype_names \<longrightarrow>
               snd (rpcHandler rt msg' (fst (rpcHandler rt msg st))) = None)))
   \<and> ((case correlationId (properties msg) of None \<Rightarrow> True | Some c \<Rightarrow> rpcCB st c = None) \<longrightarrow>
        fst (rpcHandler rt msg st) = st
      \<and> snd (rpcHandler rt msg st)
          = (case correlationId (properties msg) of
               None \<Rightarrow> None
             | Some c \<Rightarrow> if c \<in> set object_prototype_names then Some TypeError else None))"
proof (intro conjI impI)
  assume u: "case correlationId (properties msg) of None \<Rightarrow> True | Some c \<Rightarrow> rpcCB st c = None"
  show "fst (rpcHandler rt msg st) = st"
    by (simp add: rpcHandler_unknown [OF u])
  show "snd (rpcHandler rt msg st)
          = (case correlationId (properties msg) of
               None \<Rightarrow> None
             | Some c \<Rightarrow> if c \<in> set object_prototype_names then Some TypeError else None)"
    by (simp add: rpcHandler_unknown [OF u])
next
  assume h: "correlationId (properties msg) = Some corrId \<and> corrId \<noteq> []
      \<and> rpcCB st corrId = Some entry \<and> autoDelete entry \<noteq> Some False"
  then have np: "corrId \<noteq> ''__proto__''"
    using assms by auto
  obtain reply where r: "fromAMQPMessage rt (js_of_message msg) = Inr reply"
    using fromAMQPMessage_total by blast
  have step: "rpcHandler rt msg st = (deleteRpcCallback corrId (invoke (cb entry) None reply st), None)"
    using h r by (simp add: rpcHandler_def Let_def table_get_Some)
  show "\<exists>reply. fromAMQPMessage rt (js_of_message msg) = Inr reply
          \<and> rpcHandler rt msg st = (deleteRpcCallback corrId (invoke (cb entry) None reply st), None)"
    using r step by blast
  show gone: "rpcCB (fst (rpcHandler rt msg st)) corrId = None"
    using np by (simp add: step table_delete_def)
  show "\<forall>msg'. correlationId (properties msg') = Some corrId \<longrightarrow>
            fst (rpcHandler rt msg' (fst (rpcHandler rt msg st))) = fst (rpcHandler rt msg st)
          \<and> (corrId \<notin> set object_prototype_names \<longrightarrow>
               snd (rpcHandler rt msg' (fst (rpcHandler rt msg st))) = None)"
    using gone by (simp add: rpcHandler_unknown)
qed

text \<open>
  A reply to the request \<open>uuid-0\<close>: the callback gets \<open>{x: 5}\<close> and the entry goes; the
  same reply again, or a reply on a client with no entry, does nothing.
\<close>

theorem rpcHandler_dispatch_witness:
  "rpcCB (Bunnydo\<lparr>rpcCB := [''uuid-0'' \<mapsto> \<lparr>cb = UserFn 1, autoDelete = None\<rparr>]\<rparr>) ''__proto__'' = None
   \<and> correlationId (properties example_request) = Some ''uuid-0'' \<and> ''uuid-0'' \<noteq> []
   \<and> rpcCB (Bunnydo\<lparr>rpcCB := [''uuid-0'' \<mapsto> \<lparr>cb = UserFn 1, autoDelete = None\<rparr>]\<rparr>) ''uuid-0''
        = Some \<lparr>cb = UserFn 1, autoDelete = None\<rparr>
   \<and> autoDelete \<lparr>cb = UserFn 1, autoDelete = None\<rparr> \<noteq> Some False
   \<and> rpcHandler example_env example_request
        (Bunnydo\<lparr>rpcCB := [''uuid-0'' \<mapsto> \<lparr>cb = UserFn 1, autoDelete = None\<rparr>]\<rparr>)
        = (Bunnydo\<lparr>invoked := [(UserFn 1, None, Obj [(''x'', Num 5)])]\<rparr>, None)
   \<and> ''uuid-0'' \<notin> set object_prototype_names
   \<and> rpcHandler example_env example_request
        (Bunnydo\<lparr>invoked := [(UserFn 1, None, Obj [(''x'', Num 5)])]\<rparr>)
        = (Bunnydo\<lparr>invoked := [(UserFn 1, None, Obj [(''x'', Num 5)])]\<rparr>, None)
   \<and> rpcCB Bunnydo ''__proto__'' = None
   \<and> rpcCB Bunnydo ''uuid-0'' = None
   \<and> rpcHandler example_env example_request Bunnydo = (Bunnydo, None)"
proof -
  let ?entry = "\<lparr>cb = UserFn 1, autoDelete = None\<rparr>"
  let ?st = "Bunnydo\<lparr>rpcCB := [''uuid-0'' \<mapsto> ?entry]\<rparr>"
  have w: "rpcCB ?st ''__proto__'' = None" "rpcCB Bunnydo ''__proto__'' = None"
    by (simp_all add: Bunnydo_def)
  have c: "correlationId (properties example_request) = Some ''uuid-0''"
    by (simp add: example_request_def)
  have e: "rpcCB ?st ''uuid-0'' = Some ?entry"
    by simp
  have a: "autoDelete ?entry \<noteq> Some False"
    by simp
  have u: "rpcCB Bunnydo ''uuid-0'' = None"
    by (simp add: Bunnydo_def)
  have n: "''uuid-0'' \<notin> set object_prototype_names"
    by (simp add: object_prototype_names_def)
  have d: "deleteRpcCallback ''uuid-0'' (invoke (UserFn 1) None (Obj [(''x'', Num 5)]) ?st)
         = Bunnydo\<lparr>invoked := [(UserFn 1, None, Obj [(''x'', Num 5)])]\<rparr>"
    by (simp add: deleteRpcCallback_def table_delete_def invoke_def Bunnydo_def)
  have again: "rpcHandler example_env example_request
        (Bunnydo\<lparr>invoked := [(UserFn 1, None, Obj [(''x'', Num 5)])]\<rparr>)
        = (Bunnydo\<lparr>invoked := [(UserFn 1, None, Obj [(''x'', Num 5)])]\<rparr>, None)"
    using rpcHandler_dispatch [OF w(1), of example_request "''uuid-0''" ?entry example_env]
      c e a n d decode_example
    by (auto simp add: prod_eq_iff)
  have first: "rpcHandler example_env example_request ?st
        = (Bunnydo\<lparr>invoked := [(UserFn 1, None, Obj [(''x'', Num 5)])]\<rparr>, None)"
    using rpcHandler_dispatch [OF w(1), of example_request "''uuid-0''" ?entry example_env]
      c e a d decode_example
    by auto
  have none: "rpcHandler example_env example_request Bunnydo = (Bunnydo, None)"
    using rpcHandler_dispatch [OF w(2), of example_request "''uuid-0''" ?entry example_env] c u n
    by (auto simp add: prod_eq_iff)
  from w c e a n u first again none show ?thesis
    by simp
qed

subsection \<open>Serving RPC requests\<close>

lemma replyFn_acks:
  "acks (ch (fst (fst (replyFn rt msg response (st, ackd))))) msg
     + (if snd (fst (replyFn rt msg response (st, ackd))) then 0 else 1)
   \<le> acks (ch st) msg + (if ackd then 0 else 1)"
  by (simp add: replyFn_def chan_call_eq acks_append acks_Cons acks_Nil Let_def
        split: sum.splits option.splits)

lemma reply_calls_acks:
  "acks (ch (fst (reply_calls rt msg responses s))) msg
     + (if snd (reply_calls rt msg responses s) then 0 else 1)
   \<le> acks (ch (fst s)) msg + (if snd s then 0 else 1)"
proof (induction responses arbitrary: s)
  case Nil
  then show ?case by simp
next
  case (Cons response responses)
  obtain st ackd where s: "s = (st, ackd)" by (cases s)
  have "acks (ch (fst (reply_calls rt msg responses (fst (replyFn rt msg response s))))) msg
        + (if snd (reply_calls rt msg responses (fst (replyFn rt msg response s))) then 0 else 1)
      \<le> acks (ch (fst (fst (replyFn rt msg response s)))) msg
        + (if snd (fst (replyFn rt msg response s)) then 0 else 1)"
    by (rule Cons.IH)
  also have "\<dots> \<le> acks (ch (fst s)) msg + (if snd s then 0 else 1)"
    unfolding s using replyFn_acks [of rt msg response st ackd] by simp
  finally show ?case by simp
qed

lemma replyFn_nowhere:
  "\<not> truthy (opt_str (replyTo (properties msg))) \<or> \<not> truthy (opt_str (correlationId (properties msg)))
   \<Longrightarrow> replyFn rt msg response s = (s, None)"
  by (cases s) (auto simp add: replyFn_def Let_def)

lemma reply_calls_nowhere:
  "\<not> truthy (opt_str (replyTo (properties msg))) \<or> \<not> truthy (opt_str (correlationId (properties msg)))
   \<Longrightarrow> reply_calls rt msg responses s = s"
  by (induction responses arbitrary: s) (simp_all add: replyFn_nowhere)

text \<open>
  Claim C6. Whatever calls of \<open>replyFn\<close> the handler makes for a request, the request is
  acknowledged at most once (a call of \<open>ack\<close> that throws has acknowledged nothing). And
  when the request has no reply address or no correlation id (\<open>undefined\<close> or the empty
  text), the request is decoded and given to the handler, and the calls of \<open>replyFn\<close> do
  nothing: no call on the channel is made.
\<close>

theorem onRpc_acknowledges_at_most_once:
  "acks (ch (fst (onRpc_consumer rt fn responses msg st))) msg \<le> acks (ch st) msg + 1
   \<and> (\<not> truthy (opt_str (replyTo (properties msg)))
        \<or> \<not> truthy (opt_str (correlationId (properties msg)))
        \<longrightarrow> (\<exists>inData. fromAMQPMessage rt (js_of_message msg) = Inr inData
               \<and> onRpc_consumer rt fn responses msg st = (invoke fn None inData st, None)))"
proof
  obtain inData where d: "fromAMQPMessage rt (js_of_message msg) = Inr inData"
    using fromAMQPMessage_total by blast
  let ?rs = "if fn = Noop then [] else responses"
  have "acks (ch (fst (reply_calls rt msg ?rs (invoke fn None inData st, False)))) msg
          \<le> acks (ch (invoke fn None inData st)) msg + 1"
    using reply_calls_acks [of rt msg ?rs "(invoke fn None inData st, False)"] by simp
  then show "acks (ch (fst (onRpc_consumer rt fn responses msg st))) msg \<le> acks (ch st) msg + 1"
    by (simp add: onRpc_consumer_def d)
  show "\<not> truthy (opt_str (replyTo (properties msg)))
        \<or> \<not> truthy (opt_str (correlationId (properties msg)))
        \<longrightarrow> (\<exists>inData. fromAMQPMessage rt (js_of_message msg) = Inr inData
               \<and> onRpc_consumer rt fn responses msg st = (invoke fn None inData st, None))"
    by (simp add: onRpc_consumer_def d reply_calls_nowhere)
qed

text \<open>
  A handler that replies twice to a request: one acknowledgment. The same request
  without a reply address: the handler gets \<open>{x: 5}\<close> and nothing reaches the channel.
\<close>

theorem onRpc_acknowledges_at_most_once_witness:
  "acks (ch (fst (onRpc_consumer example_env (UserFn 1) [Str ''a'', Str ''b''] example_request Bunnydo)))
        example_request
      \<le> acks (ch Bunnydo) example_request + 1
   \<and> acks (ch (fst (onRpc_consumer example_env (UserFn 1) [Str ''a'', Str ''b''] example_request Bunnydo)))
        example_request = 1
   \<and> \<not> truthy (opt_str (replyTo (properties
          (example_request\<lparr>properties := \<lparr>correlationId = Some ''uuid-0'', replyTo = None\<rparr>\<rparr>))))
   \<and> onRpc_consumer example_env (UserFn 1) [Str ''a'', Str ''b'']
        (example_request\<lparr>properties := \<lparr>correlationId = Some ''uuid-0'', replyTo = None\<rparr>\<rparr>) Bunnydo
      = (Bunnydo\<lparr>invoked := [(UserFn 1, None, Obj [(''x'', Num 5)])]\<rparr>, None)"
proof -
  let ?m = "example_request\<lparr>properties := \<lparr>correlationId = Some ''uuid-0'', replyTo = None\<rparr>\<rparr>"
  have n: "\<not> truthy (opt_str (replyTo (properties ?m)))"
    by simp
  have d: "fromAMQPMessage example_env (js_of_message ?m) = Inr (Obj [(''x'', Num 5)])"
    by (simp add: fromAMQPMessage_message example_request_def example_env_def example_parse_def
          example_text)
  have i: "invoke (UserFn 1) None (Obj [(''x'', Num 5)]) Bunnydo
         = Bunnydo\<lparr>invoked := [(UserFn 1, None, Obj [(''x'', Num 5)])]\<rparr>"
    by (simp add: invoke_def Bunnydo_def)
  have one: "acks (ch (fst (onRpc_consumer example_env (UserFn 1) [Str ''a'', Str ''b'']
                 example_request Bunnydo))) example_request = 1"
    by code_simp
  show ?thesis
    using onRpc_acknowledges_at_most_once [of example_env "UserFn 1" "[Str ''a'', Str ''b'']"
        example_request Bunnydo]
      onRpc_acknowledges_at_most_once [of example_env "UserFn 1" "[Str ''a'', Str ''b'']" ?m Bunnydo]
      n d i one
    by auto
qed

subsection \<open>Subscribing to an exchange\<close>















end
